theory Spec2Isabelle
  imports Main
begin

section \<open>Pointers, differences and failed assertions\<close>

text \<open>
  The header \<^verbatim>\<open>ArrayRef.h\<close> defines two class templates: \<^verbatim>\<open>array_iterator\<close>, a random
  access iterator that carries the bounds of its sequence, and \<^verbatim>\<open>array_ref\<close>, a
  (pointer, length) view that hands out such iterators.

  A pointer to an element is modelled by its address, counted in elements: a natural
  number, with \<^verbatim>\<open>nullptr\<close> the address 0. A value of \<^verbatim>\<open>std::ptrdiff_t\<close> (64 bits) is an
  \<open>int\<close> between \<open>PTRDIFF_MIN\<close> and \<open>PTRDIFF_MAX\<close>. The sums \<^verbatim>\<open>pos_ + n\<close> and differences
  \<^verbatim>\<open>pos_ - n\<close> on which the iterator asserts can leave that range; they are \<open>pos_plus\<close> and
  \<open>pos_minus\<close> below, which wrap around as the machine does. A reference to an element is
  the address of that element. \<open>ptr_add p n\<close> is the address \<open>p + n\<close>; the offsets the header adds to a pointer
  are positions of an iterator or indices that passed an assertion, hence not negative
  (an address below 0, which no run of the header computes, would be cut at 0).

  The model is the debug build: each \<^verbatim>\<open>assert\<close> of the header is a branch that returns
  \<open>Inl (AssertionFailure l)\<close>, where \<open>l\<close> is the line of the assertion in
  \<^verbatim>\<open>ArrayRef.h\<close>.
\<close>

type_synonym pointer = nat

type_synonym difference_type = int

type_synonym reference = pointer

abbreviation nullptr :: pointer where
  "nullptr \<equiv> 0"

definition ptr_add :: "pointer \<Rightarrow> difference_type \<Rightarrow> pointer" where
  "ptr_add p n = nat (int p + n)"

definition ptr_diff :: "pointer \<Rightarrow> pointer \<Rightarrow> difference_type" where
  "ptr_diff p q = int p - int q"

datatype error = AssertionFailure nat

text \<open>The range of \<^verbatim>\<open>std::ptrdiff_t\<close> and the two's complement value of an integer in it.\<close>

definition PTRDIFF_MAX :: int where
  "PTRDIFF_MAX = 9223372036854775807"

definition PTRDIFF_MIN :: int where
  "PTRDIFF_MIN = - 9223372036854775808"

definition is_ptrdiff :: "int \<Rightarrow> bool" where
  "is_ptrdiff x \<longleftrightarrow> PTRDIFF_MIN \<le> x \<and> x \<le> PTRDIFF_MAX"

definition ptrdiff_wrap :: "int \<Rightarrow> difference_type" where
  "ptrdiff_wrap x = (x - PTRDIFF_MIN) mod 18446744073709551616 + PTRDIFF_MIN"

definition and_then :: "error + 'a \<Rightarrow> ('a \<Rightarrow> error + 'b) \<Rightarrow> error + 'b" where
  "and_then r f = (case r of Inl e \<Rightarrow> Inl e | Inr x \<Rightarrow> f x)"

section \<open>The checked iterator\<close>

text \<open>
  The fields \<^verbatim>\<open>ptr_\<close>, \<^verbatim>\<open>pos_\<close> and \<^verbatim>\<open>size_\<close> of \<^verbatim>\<open>array_iterator\<close> (lines 35 to 37).
\<close>

record array_iterator =
  iter_ptr :: pointer
  iter_pos :: difference_type
  iter_size :: difference_type

text \<open>\<^verbatim>\<open>array_iterator(pointer ptr, difference_type size, difference_type pos = 0)\<close>, lines 57 to 65.\<close>

definition iterator_ctor ::
    "pointer \<Rightarrow> difference_type \<Rightarrow> difference_type \<Rightarrow> error + array_iterator" where
  "iterator_ctor p sz ps =
     (if \<not> ((p = nullptr \<and> sz = 0) \<or> (p \<noteq> nullptr \<and> sz \<ge> 0)) then Inl (AssertionFailure 62)
      else if \<not> ps \<ge> 0 then Inl (AssertionFailure 63)
      else if \<not> ps \<le> sz then Inl (AssertionFailure 64)
      else Inr \<lparr>iter_ptr = p, iter_pos = ps, iter_size = sz\<rparr>)"

text \<open>\<^verbatim>\<open>ptr()\<close>, line 67: \<^verbatim>\<open>ptr_ + pos_\<close>.\<close>

definition ptr :: "array_iterator \<Rightarrow> pointer" where
  "ptr it = ptr_add (iter_ptr it) (iter_pos it)"

text \<open>\<^verbatim>\<open>operator*\<close>, lines 71 to 75: the reference \<^verbatim>\<open>ptr_[pos_]\<close>.\<close>

definition deref :: "array_iterator \<Rightarrow> error + reference" where
  "deref it =
     (if \<not> iter_ptr it \<noteq> nullptr then Inl (AssertionFailure 72)
      else if \<not> iter_pos it < iter_size it then Inl (AssertionFailure 73)
      else Inr (ptr_add (iter_ptr it) (iter_pos it)))"

text \<open>\<^verbatim>\<open>operator->\<close>, lines 77 to 81.\<close>

definition arrow :: "array_iterator \<Rightarrow> error + pointer" where
  "arrow it =
     (if \<not> iter_ptr it \<noteq> nullptr then Inl (AssertionFailure 78)
      else if \<not> iter_pos it < iter_size it then Inl (AssertionFailure 79)
      else Inr (ptr_add (iter_ptr it) (iter_pos it)))"

text \<open>
  The mutating operators return the iterator after the update (the value of \<^verbatim>\<open>*this\<close>);
  the postfix forms return the old value paired with the updated iterator.
  \<^verbatim>\<open>operator++\<close>, lines 83 to 93, and \<^verbatim>\<open>operator--\<close>, lines 95 to 105.
\<close>

definition pre_inc :: "array_iterator \<Rightarrow> error + array_iterator" where
  "pre_inc it =
     (if \<not> iter_pos it < iter_size it then Inl (AssertionFailure 84)
      else Inr (it\<lparr>iter_pos := iter_pos it + 1\<rparr>))"

definition post_inc :: "array_iterator \<Rightarrow> error + (array_iterator \<times> array_iterator)" where
  "post_inc it = (let t = it in and_then (pre_inc it) (\<lambda>it'. Inr (t, it')))"

definition pre_dec :: "array_iterator \<Rightarrow> error + array_iterator" where
  "pre_dec it =
     (if \<not> iter_pos it > 0 then Inl (AssertionFailure 96)
      else Inr (it\<lparr>iter_pos := iter_pos it - 1\<rparr>))"

definition post_dec :: "array_iterator \<Rightarrow> error + (array_iterator \<times> array_iterator)" where
  "post_dec it = (let t = it in and_then (pre_dec it) (\<lambda>it'. Inr (t, it')))"

text \<open>
  The expressions \<^verbatim>\<open>pos_ + n\<close> and \<^verbatim>\<open>pos_ - n\<close> of the iterator. Its fields and the
  argument are values of \<^verbatim>\<open>std::ptrdiff_t\<close>, and on them the result is the 64 bit two's
  complement sum or difference: C++ leaves the overflow of a signed sum undefined, and
  this is what the unoptimised debug build computes. (The type \<open>int\<close> has values that no
  \<^verbatim>\<open>std::ptrdiff_t\<close> holds; the header never sees them, and on them the model adds and
  subtracts in the integers.)
\<close>

definition pos_plus :: "array_iterator \<Rightarrow> difference_type \<Rightarrow> difference_type" where
  "pos_plus it n =
     (if is_ptrdiff (iter_pos it) \<and> is_ptrdiff (iter_size it) \<and> is_ptrdiff n
      then ptrdiff_wrap (iter_pos it + n) else iter_pos it + n)"

definition pos_minus :: "array_iterator \<Rightarrow> difference_type \<Rightarrow> difference_type" where
  "pos_minus it n =
     (if is_ptrdiff (iter_pos it) \<and> is_ptrdiff (iter_size it) \<and> is_ptrdiff n
      then ptrdiff_wrap (iter_pos it - n) else iter_pos it - n)"

text \<open>\<^verbatim>\<open>operator+=\<close>, lines 107 to 112, and \<^verbatim>\<open>operator+\<close>, lines 114 to 122.\<close>

definition add_assign :: "array_iterator \<Rightarrow> difference_type \<Rightarrow> error + array_iterator" where
  "add_assign it n =
     (if \<not> pos_plus it n \<ge> 0 then Inl (AssertionFailure 108)
      else if \<not> pos_plus it n \<le> iter_size it then Inl (AssertionFailure 109)
      else Inr (it\<lparr>iter_pos := pos_plus it n\<rparr>))"

definition plus_n :: "array_iterator \<Rightarrow> difference_type \<Rightarrow> error + array_iterator" where
  "plus_n it n = (let t = it in add_assign t n)"

definition n_plus :: "difference_type \<Rightarrow> array_iterator \<Rightarrow> error + array_iterator" where
  "n_plus n it = plus_n it n"

text \<open>\<^verbatim>\<open>operator-=\<close>, lines 124 to 129, and \<^verbatim>\<open>operator-\<close> with an offset, lines 131 to 135.\<close>

definition sub_assign :: "array_iterator \<Rightarrow> difference_type \<Rightarrow> error + array_iterator" where
  "sub_assign it n =
     (if \<not> pos_minus it n \<ge> 0 then Inl (AssertionFailure 125)
      else if \<not> pos_minus it n \<le> iter_size it then Inl (AssertionFailure 126)
      else Inr (it\<lparr>iter_pos := pos_minus it n\<rparr>))"

definition minus_n :: "array_iterator \<Rightarrow> difference_type \<Rightarrow> error + array_iterator" where
  "minus_n it n = (let t = it in sub_assign t n)"

text \<open>The difference of two iterators, lines 137 to 140.\<close>

definition difference :: "array_iterator \<Rightarrow> array_iterator \<Rightarrow> error + difference_type" where
  "difference it rhs =
     (if \<not> iter_ptr it = iter_ptr rhs then Inl (AssertionFailure 138)
      else Inr (iter_pos it - iter_pos rhs))"

text \<open>\<^verbatim>\<open>operator[]\<close> of the iterator, lines 142 to 147: the reference \<^verbatim>\<open>ptr_[pos_ + index]\<close>.\<close>

definition iterator_subscript :: "array_iterator \<Rightarrow> difference_type \<Rightarrow> error + reference" where
  "iterator_subscript it index =
     (if \<not> iter_ptr it \<noteq> nullptr then Inl (AssertionFailure 143)
      else if \<not> pos_plus it index \<ge> 0 then Inl (AssertionFailure 144)
      else if \<not> pos_plus it index < iter_size it then Inl (AssertionFailure 145)
      else Inr (ptr_add (iter_ptr it) (pos_plus it index)))"

text \<open>The comparisons, lines 149 to 173.\<close>

definition iterator_eq :: "array_iterator \<Rightarrow> array_iterator \<Rightarrow> error + bool" where
  "iterator_eq lhs rhs =
     (if \<not> iter_ptr lhs = iter_ptr rhs then Inl (AssertionFailure 150)
      else Inr (iter_pos lhs = iter_pos rhs))"

definition iterator_ne :: "array_iterator \<Rightarrow> array_iterator \<Rightarrow> error + bool" where
  "iterator_ne lhs rhs = and_then (iterator_eq lhs rhs) (\<lambda>b. Inr (\<not> b))"

definition iterator_less :: "array_iterator \<Rightarrow> array_iterator \<Rightarrow> error + bool" where
  "iterator_less lhs rhs =
     (if \<not> iter_ptr lhs = iter_ptr rhs then Inl (AssertionFailure 159)
      else Inr (iter_pos lhs < iter_pos rhs))"

definition iterator_greater :: "array_iterator \<Rightarrow> array_iterator \<Rightarrow> error + bool" where
  "iterator_greater lhs rhs = iterator_less rhs lhs"

definition iterator_le :: "array_iterator \<Rightarrow> array_iterator \<Rightarrow> error + bool" where
  "iterator_le lhs rhs = and_then (iterator_less rhs lhs) (\<lambda>b. Inr (\<not> b))"

definition iterator_ge :: "array_iterator \<Rightarrow> array_iterator \<Rightarrow> error + bool" where
  "iterator_ge lhs rhs = and_then (iterator_less lhs rhs) (\<lambda>b. Inr (\<not> b))"

text \<open>
  The condition the three assertions of the constructor check, as a predicate on the
  fields of an iterator.
\<close>

definition valid_iterator :: "array_iterator \<Rightarrow> bool" where
  "valid_iterator it \<longleftrightarrow>
     ((iter_ptr it = nullptr \<and> iter_size it = 0) \<or> (iter_ptr it \<noteq> nullptr \<and> iter_size it \<ge> 0))
     \<and> iter_pos it \<ge> 0 \<and> iter_pos it \<le> iter_size it"

section \<open>The view\<close>

text \<open>The fields \<^verbatim>\<open>data_\<close> and \<^verbatim>\<open>size_\<close> of \<^verbatim>\<open>array_ref\<close> (lines 206 and 207).\<close>

record array_ref =
  ref_data :: pointer
  ref_size :: difference_type

text \<open>\<^verbatim>\<open>Min\<close>, lines 209 to 211.\<close>

definition Min2 :: "difference_type \<Rightarrow> difference_type \<Rightarrow> difference_type" where
  "Min2 x y = (if y < x then y else x)"

text \<open>The default constructor, line 214.\<close>

definition array_ref_default :: array_ref where
  "array_ref_default = \<lparr>ref_data = nullptr, ref_size = 0\<rparr>"

text \<open>\<^verbatim>\<open>array_ref(pointer first, pointer last)\<close>, lines 218 to 223.\<close>

definition array_ref_pointers :: "pointer \<Rightarrow> pointer \<Rightarrow> error + array_ref" where
  "array_ref_pointers first lst =
     (let d = first; sz = ptr_diff lst first in
      if \<not> ((d = nullptr \<and> sz = 0) \<or> (d \<noteq> nullptr \<and> sz \<ge> 0)) then Inl (AssertionFailure 222)
      else Inr \<lparr>ref_data = d, ref_size = sz\<rparr>)"

text \<open>\<^verbatim>\<open>array_ref(iterator first, iterator last)\<close>, lines 225 to 230.\<close>

definition array_ref_iterators :: "array_iterator \<Rightarrow> array_iterator \<Rightarrow> error + array_ref" where
  "array_ref_iterators first lst =
     (let d = ptr first in
      and_then (difference lst first) (\<lambda>sz.
        if \<not> ((d = nullptr \<and> sz = 0) \<or> (d \<noteq> nullptr \<and> sz \<ge> 0)) then Inl (AssertionFailure 229)
        else Inr \<lparr>ref_data = d, ref_size = sz\<rparr>))"

text \<open>
  \<^verbatim>\<open>array_ref(U* p, difference_type n)\<close>, lines 232 to 240: no assertion. The constructors
  from an array and from a container (lines 242 to 279) store a pointer and a count in the
  same way.
\<close>

definition array_ref_pointer_count :: "pointer \<Rightarrow> difference_type \<Rightarrow> array_ref" where
  "array_ref_pointer_count p n = \<lparr>ref_data = p, ref_size = n\<rparr>"

text \<open>\<^verbatim>\<open>operator[]\<close> of the view, lines 285 to 289: the reference \<^verbatim>\<open>data_[index]\<close>.\<close>

definition subscript :: "array_ref \<Rightarrow> difference_type \<Rightarrow> error + reference" where
  "subscript v index =
     (if \<not> index \<ge> 0 then Inl (AssertionFailure 286)
      else if \<not> index < ref_size v then Inl (AssertionFailure 287)
      else Inr (ptr_add (ref_data v) index))"

text \<open>\<^verbatim>\<open>empty()\<close>, \<^verbatim>\<open>begin()\<close> and \<^verbatim>\<open>end()\<close>, lines 299 to 309.\<close>

definition empty :: "array_ref \<Rightarrow> bool" where
  "empty v \<longleftrightarrow> ref_size v = 0"

definition ref_begin :: "array_ref \<Rightarrow> error + array_iterator" where
  "ref_begin v = iterator_ctor (ref_data v) (ref_size v) 0"

definition ref_end :: "array_ref \<Rightarrow> error + array_iterator" where
  "ref_end v = iterator_ctor (ref_data v) (ref_size v) (ref_size v)"

text \<open>
  The sub-range operations, lines 312 to 353. The elements of a braced initialiser are
  evaluated from left to right, so the first iterator is built before the second.
\<close>

definition take_front :: "array_ref \<Rightarrow> difference_type \<Rightarrow> error + array_ref" where
  "take_front v n0 =
     (let n = Min2 n0 (ref_size v) in
      and_then (ref_begin v) (\<lambda>first.
      and_then (ref_begin v) (\<lambda>b.
      and_then (plus_n b n) (\<lambda>lst.
      array_ref_iterators first lst))))"

definition take_back :: "array_ref \<Rightarrow> difference_type \<Rightarrow> error + array_ref" where
  "take_back v n0 =
     (let n = Min2 n0 (ref_size v) in
      and_then (ref_end v) (\<lambda>e.
      and_then (minus_n e n) (\<lambda>first.
      and_then (ref_end v) (\<lambda>lst.
      array_ref_iterators first lst))))"

definition drop_front :: "array_ref \<Rightarrow> difference_type \<Rightarrow> error + array_ref" where
  "drop_front v n0 =
     (let n = Min2 n0 (ref_size v) in
      and_then (ref_begin v) (\<lambda>b.
      and_then (plus_n b n) (\<lambda>first.
      and_then (ref_end v) (\<lambda>lst.
      array_ref_iterators first lst))))"

definition drop_back :: "array_ref \<Rightarrow> difference_type \<Rightarrow> error + array_ref" where
  "drop_back v n0 =
     (let n = Min2 n0 (ref_size v) in
      and_then (ref_begin v) (\<lambda>first.
      and_then (ref_end v) (\<lambda>e.
      and_then (minus_n e n) (\<lambda>lst.
      array_ref_iterators first lst))))"

definition subarray :: "array_ref \<Rightarrow> difference_type \<Rightarrow> difference_type \<Rightarrow> error + array_ref" where
  "subarray v first lst = and_then (take_front v lst) (\<lambda>w. drop_front w first)"

definition subarray_from :: "array_ref \<Rightarrow> difference_type \<Rightarrow> error + array_ref" where
  "subarray_from v first = drop_front v first"

definition slice :: "array_ref \<Rightarrow> difference_type \<Rightarrow> difference_type \<Rightarrow> error + array_ref" where
  "slice v first n = and_then (drop_front v first) (\<lambda>w. take_front w n)"

definition slice_from :: "array_ref \<Rightarrow> difference_type \<Rightarrow> error + array_ref" where
  "slice_from v first = drop_front v first"

text \<open>\<^verbatim>\<open>operator==\<close> and \<^verbatim>\<open>operator!=\<close> of the view, lines 356 to 362.\<close>

definition array_ref_eq :: "array_ref \<Rightarrow> array_ref \<Rightarrow> bool" where
  "array_ref_eq lhs rhs \<longleftrightarrow> ref_data lhs = ref_data rhs \<and> ref_size lhs = ref_size rhs"

definition array_ref_ne :: "array_ref \<Rightarrow> array_ref \<Rightarrow> bool" where
  "array_ref_ne lhs rhs \<longleftrightarrow> \<not> array_ref_eq lhs rhs"

text \<open>
  The condition the assertion of the two range constructors checks (lines 222 and 229):
  the size is not negative, and a null data pointer comes with size 0 only.
\<close>

definition valid_view :: "array_ref \<Rightarrow> bool" where
  "valid_view v \<longleftrightarrow>
     (ref_data v = nullptr \<and> ref_size v = 0) \<or> (ref_data v \<noteq> nullptr \<and> ref_size v \<ge> 0)"

text \<open>
  The range of \<open>w\<close> lies in the range of \<open>v\<close>: with \<open>d\<close>, \<open>s\<close> the data and size of \<open>v\<close> and
  \<open>d'\<close>, \<open>s'\<close> those of \<open>w\<close>: \<open>d \<le> d' \<le> d + s\<close>, \<open>0 \<le> s'\<close> and \<open>d' + s' \<le> d + s\<close>.
\<close>

definition within :: "array_ref \<Rightarrow> array_ref \<Rightarrow> bool" where
  "within v w \<longleftrightarrow>
     ref_data v \<le> ref_data w \<and> int (ref_data w) \<le> int (ref_data v) + ref_size v
     \<and> 0 \<le> ref_size w \<and> int (ref_data w) + ref_size w \<le> int (ref_data v) + ref_size v"

text \<open>
  The precondition of the iterator's constructor in the words of the specification:
  \<open>position\<close> in \<open>[0, length]\<close>, \<open>length \<ge> 0\<close>, and the pointer is null iff
  \<open>length = 0\<close>. It is compared below with what the constructor asserts.
\<close>

definition spec_ctor_precondition ::
    "pointer \<Rightarrow> difference_type \<Rightarrow> difference_type \<Rightarrow> bool" where
  "spec_ctor_precondition p sz ps \<longleftrightarrow>
     (0 \<le> ps \<and> ps \<le> sz) \<and> sz \<ge> 0 \<and> (p = nullptr \<longleftrightarrow> sz = 0)"

section \<open>Basic facts\<close>

lemma and_then_Inr [simp]: "and_then (Inr x) f = f x"
  by (simp add: and_then_def)

lemma and_then_Inl [simp]: "and_then (Inl e) f = Inl e"
  by (simp add: and_then_def)

lemma ptrdiff_wrap_id: "is_ptrdiff x \<Longrightarrow> ptrdiff_wrap x = x"
  by (simp add: is_ptrdiff_def ptrdiff_wrap_def PTRDIFF_MIN_def PTRDIFF_MAX_def)

lemma ptrdiff_wrap_above:
  assumes "PTRDIFF_MAX < x" "x \<le> PTRDIFF_MAX - PTRDIFF_MIN"
  shows "ptrdiff_wrap x = x - 18446744073709551616"
proof -
  have "(x - PTRDIFF_MIN) mod 18446744073709551616
      = (x - PTRDIFF_MIN - 18446744073709551616) mod 18446744073709551616"
    by simp
  also have "\<dots> = x - PTRDIFF_MIN - 18446744073709551616"
    using assms by (simp add: PTRDIFF_MIN_def PTRDIFF_MAX_def)
  finally show ?thesis
    by (simp add: ptrdiff_wrap_def)
qed

lemma pos_plus_in_range:
  "0 \<le> iter_pos it + n \<Longrightarrow> iter_pos it + n \<le> iter_size it \<Longrightarrow> pos_plus it n = iter_pos it + n"
  by (auto simp: pos_plus_def is_ptrdiff_def PTRDIFF_MIN_def intro!: ptrdiff_wrap_id)

lemma pos_minus_in_range:
  "0 \<le> iter_pos it - n \<Longrightarrow> iter_pos it - n \<le> iter_size it \<Longrightarrow> pos_minus it n = iter_pos it - n"
  by (auto simp: pos_minus_def is_ptrdiff_def PTRDIFF_MIN_def intro!: ptrdiff_wrap_id)

lemma add_assign_in_range:
  "0 \<le> iter_pos it + n \<Longrightarrow> iter_pos it + n \<le> iter_size it \<Longrightarrow>
   add_assign it n = Inr (it\<lparr>iter_pos := iter_pos it + n\<rparr>)"
  by (simp add: add_assign_def pos_plus_in_range)

lemma sub_assign_in_range:
  "0 \<le> iter_pos it - n \<Longrightarrow> iter_pos it - n \<le> iter_size it \<Longrightarrow>
   sub_assign it n = Inr (it\<lparr>iter_pos := iter_pos it - n\<rparr>)"
  by (simp add: sub_assign_def pos_minus_in_range)

lemma iterator_subscript_in_range:
  "iter_ptr it \<noteq> nullptr \<Longrightarrow> 0 \<le> iter_pos it + i \<Longrightarrow> iter_pos it + i < iter_size it \<Longrightarrow>
   iterator_subscript it i = Inr (ptr_add (iter_ptr it) (iter_pos it + i))"
  by (simp add: iterator_subscript_def pos_plus_in_range)

lemma add_assign_negative:
  "iter_pos it = 0 \<Longrightarrow> n < 0 \<Longrightarrow> add_assign it n = Inl (AssertionFailure 108)"
  by (auto simp: add_assign_def pos_plus_def ptrdiff_wrap_id)

lemma sub_assign_end_negative:
  assumes "iter_pos it = iter_size it" "0 \<le> iter_size it" "n < 0"
    "is_ptrdiff (iter_size it)" "is_ptrdiff n"
  shows "sub_assign it n =
     Inl (AssertionFailure (if iter_size it - n \<le> PTRDIFF_MAX then 126 else 125))"
proof (cases "iter_size it - n \<le> PTRDIFF_MAX")
  case True
  then have "is_ptrdiff (iter_size it - n)"
    using assms by (simp add: is_ptrdiff_def)
  then have "pos_minus it n = iter_size it - n"
    using assms by (simp add: pos_minus_def ptrdiff_wrap_id)
  then show ?thesis
    using True assms by (simp add: sub_assign_def)
next
  case False
  then have "ptrdiff_wrap (iter_size it - n) = iter_size it - n - 18446744073709551616"
    using assms by (intro ptrdiff_wrap_above) (auto simp: is_ptrdiff_def)
  then have "pos_minus it n = iter_size it - n - 18446744073709551616"
    using assms by (simp add: pos_minus_def)
  moreover have "iter_size it - n - 18446744073709551616 < 0"
    using assms by (simp add: is_ptrdiff_def PTRDIFF_MIN_def PTRDIFF_MAX_def)
  ultimately show ?thesis
    using False by (simp add: sub_assign_def)
qed

lemma valid_view_iff:
  "valid_view v \<longleftrightarrow> 0 \<le> ref_size v \<and> (ref_data v = nullptr \<longrightarrow> ref_size v = 0)"
  by (auto simp: valid_view_def)

lemma ref_begin_valid:
  "valid_view v \<Longrightarrow>
   ref_begin v = Inr \<lparr>iter_ptr = ref_data v, iter_pos = 0, iter_size = ref_size v\<rparr>"
  by (auto simp: valid_view_def ref_begin_def iterator_ctor_def)

lemma ref_end_valid:
  "valid_view v \<Longrightarrow>
   ref_end v = Inr \<lparr>iter_ptr = ref_data v, iter_pos = ref_size v, iter_size = ref_size v\<rparr>"
  by (auto simp: valid_view_def ref_end_def iterator_ctor_def)

text \<open>
  Every view that a constructor with an assertion returns satisfies \<open>valid_view\<close>, and so
  does the default view. On a view with null data and a positive size, which only the
  unchecked constructors can build, \<^verbatim>\<open>begin()\<close> fails its assertion.
\<close>

lemma array_ref_default_valid: "valid_view array_ref_default"
  by (simp add: valid_view_def array_ref_default_def)

lemma array_ref_pointers_valid: "array_ref_pointers first lst = Inr v \<Longrightarrow> valid_view v"
  by (auto simp: array_ref_pointers_def valid_view_def Let_def split: if_splits)

lemma array_ref_iterators_valid: "array_ref_iterators first lst = Inr v \<Longrightarrow> valid_view v"
  by (auto simp: array_ref_iterators_def difference_def valid_view_def Let_def split: if_splits)

lemma ref_begin_invalid:
  "\<not> valid_view v \<Longrightarrow> ref_begin v = Inl (AssertionFailure 62)"
  by (auto simp: valid_view_def ref_begin_def iterator_ctor_def)

lemma iterator_ctor_valid: "iterator_ctor p sz ps = Inr it \<Longrightarrow> valid_iterator it"
  by (auto simp: iterator_ctor_def valid_iterator_def split: if_splits)

lemma ptr_add_zero [simp]: "ptr_add p 0 = p"
  by (simp add: ptr_add_def)

lemma ptr_add_nonneg: "0 \<le> n \<Longrightarrow> int (ptr_add p n) = int p + n"
  by (simp add: ptr_add_def)

lemma ptr_add_null_iff: "0 \<le> n \<Longrightarrow> ptr_add p n = nullptr \<longleftrightarrow> p = nullptr \<and> n = 0"
  by (auto simp: ptr_add_def)

lemma Min2_min: "Min2 x y = min x y"
  by (simp add: Min2_def min_def)

lemma take_front_closed:
  assumes "valid_view v" "0 \<le> n"
  shows "take_front v n = Inr \<lparr>ref_data = ref_data v, ref_size = min n (ref_size v)\<rparr>"
  using assms
  by (auto simp: take_front_def ref_begin_valid Min2_min plus_n_def add_assign_in_range
      array_ref_iterators_def ptr_def difference_def valid_view_def Let_def)

lemma drop_front_closed:
  assumes "valid_view v" "0 \<le> n"
  shows "drop_front v n = Inr \<lparr>ref_data = ptr_add (ref_data v) (min n (ref_size v)),
                              ref_size = ref_size v - min n (ref_size v)\<rparr>"
  using assms
  by (auto simp: drop_front_def ref_begin_valid ref_end_valid Min2_min plus_n_def add_assign_in_range
      array_ref_iterators_def ptr_def difference_def valid_view_def Let_def ptr_add_null_iff)

lemma take_back_closed:
  assumes "valid_view v" "0 \<le> n"
  shows "take_back v n = Inr \<lparr>ref_data = ptr_add (ref_data v) (ref_size v - min n (ref_size v)),
                             ref_size = min n (ref_size v)\<rparr>"
  using assms
  by (auto simp: take_back_def ref_begin_valid ref_end_valid Min2_min minus_n_def sub_assign_in_range
      array_ref_iterators_def ptr_def difference_def valid_view_def Let_def ptr_add_null_iff)

lemma drop_back_closed:
  assumes "valid_view v" "0 \<le> n"
  shows "drop_back v n = Inr \<lparr>ref_data = ref_data v, ref_size = ref_size v - min n (ref_size v)\<rparr>"
  using assms
  by (auto simp: drop_back_def ref_begin_valid ref_end_valid Min2_min minus_n_def sub_assign_in_range
      array_ref_iterators_def ptr_def difference_def valid_view_def Let_def ptr_add_null_iff)

lemma valid_view_take: "valid_view v \<Longrightarrow> 0 \<le> n \<Longrightarrow>
   valid_view \<lparr>ref_data = ref_data v, ref_size = min n (ref_size v)\<rparr>"
  by (auto simp: valid_view_def)

lemma valid_view_drop: "valid_view v \<Longrightarrow> 0 \<le> n \<Longrightarrow>
   valid_view \<lparr>ref_data = ptr_add (ref_data v) (min n (ref_size v)),
               ref_size = ref_size v - min n (ref_size v)\<rparr>"
  by (auto simp: valid_view_def ptr_add_def)

lemma subarray_closed:
  assumes "valid_view v" "0 \<le> first" "0 \<le> lst"
  shows "subarray v first lst =
     Inr \<lparr>ref_data = ptr_add (ref_data v) (min first (min lst (ref_size v))),
          ref_size = min lst (ref_size v) - min first (min lst (ref_size v))\<rparr>"
proof -
  let ?w = "\<lparr>ref_data = ref_data v, ref_size = min lst (ref_size v)\<rparr>"
  have "subarray v first lst = drop_front ?w first"
    using assms by (simp add: subarray_def take_front_closed)
  also have "\<dots> = Inr \<lparr>ref_data = ptr_add (ref_data ?w) (min first (ref_size ?w)),
                        ref_size = ref_size ?w - min first (ref_size ?w)\<rparr>"
    using assms by (intro drop_front_closed valid_view_take)
  finally show ?thesis by simp
qed

lemma ptr_add_add: "0 \<le> a \<Longrightarrow> 0 \<le> b \<Longrightarrow> ptr_add (ptr_add p a) b = ptr_add p (a + b)"
  by (simp add: ptr_add_def nat_add_distrib)

lemma slice_closed:
  assumes "valid_view v" "0 \<le> first" "0 \<le> n"
  shows "slice v first n =
     Inr \<lparr>ref_data = ptr_add (ref_data v) (min first (ref_size v)),
          ref_size = min n (ref_size v - min first (ref_size v))\<rparr>"
proof -
  let ?w = "\<lparr>ref_data = ptr_add (ref_data v) (min first (ref_size v)),
             ref_size = ref_size v - min first (ref_size v)\<rparr>"
  have "slice v first n = take_front ?w n"
    using assms by (simp add: slice_def drop_front_closed)
  also have "\<dots> = Inr \<lparr>ref_data = ref_data ?w, ref_size = min n (ref_size ?w)\<rparr>"
    using assms by (intro take_front_closed valid_view_drop)
  finally show ?thesis by simp
qed

lemma slice_eq_subarray:
  assumes "valid_view v" "0 \<le> first" "0 \<le> n"
  shows "slice v first n = subarray v first (first + n)"
proof -
  have "0 \<le> first + n" using assms by simp
  then show ?thesis
    using assms by (simp add: slice_closed subarray_closed) (auto simp: min_def)
qed

section \<open>Sub-range operations\<close>

text \<open>
  C2. For every view \<open>v\<close> that satisfies the constructor's assertion (its size is not
  negative, and null data comes with size 0 only) and all \<open>first \<ge> 0\<close>, \<open>n \<ge> 0\<close>:
  \<open>slice(first, n)\<close> equals \<open>subarray(first, first + n)\<close> whenever \<open>first + n \<le> size\<close>.
  The two clamp in a different order. \<open>slice(first, n)\<close> is \<open>drop_front(first)\<close>, which
  leaves a view of size \<open>size - min(first, size)\<close>, followed by \<open>take_front(n)\<close> on that
  view, so \<open>n\<close> is clamped against the size after dropping. \<open>subarray(first, last)\<close> is
  \<open>take_front(last)\<close>, which clamps \<open>last\<close> against the original size, followed by
  \<open>drop_front(first)\<close> on that view.
\<close>

theorem slice_subarray_clamping:
  assumes "valid_view v" "0 \<le> first" "0 \<le> n" "0 \<le> lst"
  shows "(first + n \<le> ref_size v \<longrightarrow> slice v first n = subarray v first (first + n))
    \<and> drop_front v first =
        Inr \<lparr>ref_data = ptr_add (ref_data v) (min first (ref_size v)),
             ref_size = ref_size v - min first (ref_size v)\<rparr>
    \<and> slice v first n =
        take_front \<lparr>ref_data = ptr_add (ref_data v) (min first (ref_size v)),
                    ref_size = ref_size v - min first (ref_size v)\<rparr> n
    \<and> slice v first n =
        Inr \<lparr>ref_data = ptr_add (ref_data v) (min first (ref_size v)),
             ref_size = min n (ref_size v - min first (ref_size v))\<rparr>
    \<and> take_front v lst = Inr \<lparr>ref_data = ref_data v, ref_size = min lst (ref_size v)\<rparr>
    \<and> subarray v first lst =
        drop_front \<lparr>ref_data = ref_data v, ref_size = min lst (ref_size v)\<rparr> first
    \<and> subarray v first lst =
        Inr \<lparr>ref_data = ptr_add (ref_data v) (min first (min lst (ref_size v))),
             ref_size = min lst (ref_size v) - min first (min lst (ref_size v))\<rparr>"
proof (intro conjI impI)
  show "slice v first n = subarray v first (first + n)"
    using assms by (intro slice_eq_subarray)
  show "drop_front v first =
        Inr \<lparr>ref_data = ptr_add (ref_data v) (min first (ref_size v)),
             ref_size = ref_size v - min first (ref_size v)\<rparr>"
    using assms by (intro drop_front_closed)
  then show "slice v first n =
        take_front \<lparr>ref_data = ptr_add (ref_data v) (min first (ref_size v)),
                    ref_size = ref_size v - min first (ref_size v)\<rparr> n"
    by (simp add: slice_def)
  show "slice v first n =
        Inr \<lparr>ref_data = ptr_add (ref_data v) (min first (ref_size v)),
             ref_size = min n (ref_size v - min first (ref_size v))\<rparr>"
    using assms by (intro slice_closed)
  show "take_front v lst = Inr \<lparr>ref_data = ref_data v, ref_size = min lst (ref_size v)\<rparr>"
    using assms by (intro take_front_closed)
  then show "subarray v first lst =
        drop_front \<lparr>ref_data = ref_data v, ref_size = min lst (ref_size v)\<rparr> first"
    by (simp add: subarray_def)
  show "subarray v first lst =
        Inr \<lparr>ref_data = ptr_add (ref_data v) (min first (min lst (ref_size v))),
             ref_size = min lst (ref_size v) - min first (min lst (ref_size v))\<rparr>"
    using assms by (intro subarray_closed)
qed

theorem slice_subarray_clamping_witness:
  "valid_view \<lparr>ref_data = 100, ref_size = 10\<rparr>
   \<and> (4::int) + 3 \<le> ref_size \<lparr>ref_data = 100, ref_size = 10\<rparr>
   \<and> slice \<lparr>ref_data = 100, ref_size = 10\<rparr> 4 3 = subarray \<lparr>ref_data = 100, ref_size = 10\<rparr> 4 (4 + 3)
   \<and> slice \<lparr>ref_data = 100, ref_size = 10\<rparr> 4 3 = Inr \<lparr>ref_data = 104, ref_size = 3\<rparr>
   \<and> subarray \<lparr>ref_data = 100, ref_size = 10\<rparr> 4 13 = Inr \<lparr>ref_data = 104, ref_size = 6\<rparr>"
proof -
  have h: "valid_view \<lparr>ref_data = 100, ref_size = 10\<rparr>"
    by (simp add: valid_view_def)
  note t = slice_subarray_clamping [OF h, of 4 3 13, simplified]
  have a: "slice \<lparr>ref_data = 100, ref_size = 10\<rparr> 4 3 = subarray \<lparr>ref_data = 100, ref_size = 10\<rparr> 4 (4 + 3)"
    using t by simp
  have b: "slice \<lparr>ref_data = 100, ref_size = 10\<rparr> 4 3 = Inr \<lparr>ref_data = 104, ref_size = 3\<rparr>"
    using conjunct1 [OF conjunct2 [OF conjunct2 [OF conjunct2 [OF t]]]] by (simp add: ptr_add_def)
  have c: "subarray \<lparr>ref_data = 100, ref_size = 10\<rparr> 4 13 = Inr \<lparr>ref_data = 104, ref_size = 6\<rparr>"
    using conjunct2 [OF conjunct2 [OF conjunct2 [OF conjunct2 [OF conjunct2 [OF conjunct2 [OF t]]]]]]
    by (simp add: ptr_add_def)
  show ?thesis
    using h a b c by simp
qed

text \<open>
  C3. For every view \<open>v\<close> that satisfies the constructor's assertion and all
  \<open>first \<ge> 0\<close>, \<open>last \<ge> 0\<close>: \<open>subarray(first, last)\<close> with \<open>last > size\<close> is
  \<open>subarray(first, size)\<close>; \<open>subarray\<close> always returns a view, no assertion fails; and when
  \<open>first\<close> is at least the clamped \<open>last\<close>, that view has size 0.
\<close>

theorem subarray_clamps_last:
  assumes "valid_view v" "0 \<le> first" "0 \<le> lst"
  shows "(ref_size v < lst \<longrightarrow> subarray v first lst = subarray v first (ref_size v))
    \<and> (\<exists>w. subarray v first lst = Inr w
           \<and> (min lst (ref_size v) \<le> first \<longrightarrow> ref_size w = 0 \<and> empty w))"
proof -
  have sz: "0 \<le> ref_size v"
    using assms by (auto simp: valid_view_def)
  have "subarray v first lst = subarray v first (ref_size v)" if "ref_size v < lst"
    using that assms sz by (simp add: subarray_closed)
  moreover have "\<exists>w. subarray v first lst = Inr w
           \<and> (min lst (ref_size v) \<le> first \<longrightarrow> ref_size w = 0 \<and> empty w)"
    using assms by (simp add: subarray_closed empty_def)
  ultimately show ?thesis by blast
qed

theorem subarray_clamps_last_witness:
  "valid_view \<lparr>ref_data = 100, ref_size = 10\<rparr>
   \<and> ref_size \<lparr>ref_data = 100, ref_size = 10\<rparr> < 13
   \<and> subarray \<lparr>ref_data = 100, ref_size = 10\<rparr> 4 13 = subarray \<lparr>ref_data = 100, ref_size = 10\<rparr> 4 (ref_size \<lparr>ref_data = 100, ref_size = 10\<rparr>)
   \<and> min 3 (ref_size \<lparr>ref_data = 100, ref_size = 10\<rparr>) \<le> 12
   \<and> (\<exists>w. subarray \<lparr>ref_data = 100, ref_size = 10\<rparr> 12 3 = Inr w \<and> ref_size w = 0 \<and> empty w)"
proof -
  have h: "valid_view \<lparr>ref_data = 100, ref_size = 10\<rparr>"
    by (simp add: valid_view_def)
  have a: "subarray \<lparr>ref_data = 100, ref_size = 10\<rparr> 4 13 = subarray \<lparr>ref_data = 100, ref_size = 10\<rparr> 4 (ref_size \<lparr>ref_data = 100, ref_size = 10\<rparr>)"
    using subarray_clamps_last [OF h, of 4 13] by simp
  have b: "\<exists>w. subarray \<lparr>ref_data = 100, ref_size = 10\<rparr> 12 3 = Inr w \<and> ref_size w = 0 \<and> empty w"
    using subarray_clamps_last [OF h, of 12 3] by simp
  show ?thesis
    using h a b by simp
qed

text \<open>
  C4. For every view \<open>v\<close> that satisfies the constructor's assertion and all \<open>k\<close>, \<open>n\<close>
  with \<open>0 \<le> k \<le> n \<le> size\<close>: \<open>take_front(n)\<close> followed by \<open>drop_front(k)\<close> returns the
  view of length \<open>n - k\<close> whose data pointer is \<open>data + k\<close>.
\<close>

theorem take_front_then_drop_front:
  assumes "valid_view v" "0 \<le> k" "k \<le> n" "n \<le> ref_size v"
  shows "and_then (take_front v n) (\<lambda>w. drop_front w k) =
           Inr \<lparr>ref_data = ptr_add (ref_data v) k, ref_size = n - k\<rparr>
         \<and> ptr_add (ref_data v) k = ref_data v + nat k"
proof -
  have "and_then (take_front v n) (\<lambda>w. drop_front w k) = subarray v k n"
    by (simp add: subarray_def)
  also have "\<dots> = Inr \<lparr>ref_data = ptr_add (ref_data v) k, ref_size = n - k\<rparr>"
    using assms by (simp add: subarray_closed)
  finally show ?thesis
    using assms by (simp add: ptr_add_def nat_add_distrib)
qed

theorem take_front_then_drop_front_witness:
  "valid_view \<lparr>ref_data = 100, ref_size = 10\<rparr>
   \<and> (3::int) \<le> 7 \<and> 7 \<le> ref_size \<lparr>ref_data = 100, ref_size = 10\<rparr>
   \<and> and_then (take_front \<lparr>ref_data = 100, ref_size = 10\<rparr> 7) (\<lambda>w. drop_front w 3) = Inr \<lparr>ref_data = 103, ref_size = 4\<rparr>"
proof -
  have h: "valid_view \<lparr>ref_data = 100, ref_size = 10\<rparr>"
    by (simp add: valid_view_def)
  show ?thesis
    using h take_front_then_drop_front [OF h, of 3 7] by simp
qed

section \<open>Iterators of a view\<close>

text \<open>
  C5. For every view \<open>v\<close> that satisfies the constructor's assertion:
  \<open>end() - begin()\<close> is \<open>size()\<close>, and for every index \<open>i\<close> with \<open>0 \<le> i < size()\<close> the
  three expressions \<open>v[i]\<close>, \<open>*(v.begin() + i)\<close> and \<open>v.begin()[i]\<close> are references to the
  same element, the one at address \<open>data() + i\<close>.
\<close>

theorem begin_end_span_and_indexing:
  assumes "valid_view v"
  shows "and_then (ref_end v) (\<lambda>e. and_then (ref_begin v) (\<lambda>b. difference e b)) = Inr (ref_size v)
    \<and> (\<forall>i. 0 \<le> i \<and> i < ref_size v \<longrightarrow>
          subscript v i = Inr (ptr_add (ref_data v) i)
        \<and> and_then (ref_begin v) (\<lambda>b. and_then (plus_n b i) deref) = Inr (ptr_add (ref_data v) i)
        \<and> and_then (ref_begin v) (\<lambda>b. iterator_subscript b i) = Inr (ptr_add (ref_data v) i))"
proof (intro conjI allI impI)
  show "and_then (ref_end v) (\<lambda>e. and_then (ref_begin v) (\<lambda>b. difference e b)) = Inr (ref_size v)"
    using assms by (simp add: ref_begin_valid ref_end_valid difference_def)
next
  fix i assume i: "0 \<le> i \<and> i < ref_size v"
  then have nn: "ref_data v \<noteq> nullptr"
    using assms by (auto simp: valid_view_def)
  show "subscript v i = Inr (ptr_add (ref_data v) i)"
    using i by (simp add: subscript_def)
  show "and_then (ref_begin v) (\<lambda>b. and_then (plus_n b i) deref) = Inr (ptr_add (ref_data v) i)"
    using i nn assms by (simp add: ref_begin_valid plus_n_def add_assign_in_range deref_def)
  show "and_then (ref_begin v) (\<lambda>b. iterator_subscript b i) = Inr (ptr_add (ref_data v) i)"
    using i nn assms by (simp add: ref_begin_valid iterator_subscript_in_range)
qed

theorem begin_end_span_and_indexing_witness:
  "valid_view \<lparr>ref_data = 100, ref_size = 10\<rparr>
   \<and> and_then (ref_end \<lparr>ref_data = 100, ref_size = 10\<rparr>) (\<lambda>e. and_then (ref_begin \<lparr>ref_data = 100, ref_size = 10\<rparr>) (\<lambda>b. difference e b)) = Inr 10
   \<and> (4::int) < ref_size \<lparr>ref_data = 100, ref_size = 10\<rparr>
   \<and> subscript \<lparr>ref_data = 100, ref_size = 10\<rparr> 4 = Inr 104
   \<and> and_then (ref_begin \<lparr>ref_data = 100, ref_size = 10\<rparr>) (\<lambda>b. and_then (plus_n b 4) deref) = Inr 104
   \<and> and_then (ref_begin \<lparr>ref_data = 100, ref_size = 10\<rparr>) (\<lambda>b. iterator_subscript b 4) = Inr 104"
proof -
  have h: "valid_view \<lparr>ref_data = 100, ref_size = 10\<rparr>"
    by (simp add: valid_view_def)
  note t = begin_end_span_and_indexing [OF h]
  have a: "and_then (ref_end \<lparr>ref_data = 100, ref_size = 10\<rparr>) (\<lambda>e. and_then (ref_begin \<lparr>ref_data = 100, ref_size = 10\<rparr>) (\<lambda>b. difference e b)) = Inr 10"
    using conjunct1 [OF t] by simp
  have b: "subscript \<lparr>ref_data = 100, ref_size = 10\<rparr> 4 = Inr 104
     \<and> and_then (ref_begin \<lparr>ref_data = 100, ref_size = 10\<rparr>) (\<lambda>b. and_then (plus_n b 4) deref) = Inr 104
     \<and> and_then (ref_begin \<lparr>ref_data = 100, ref_size = 10\<rparr>) (\<lambda>b. iterator_subscript b 4) = Inr 104"
    using spec [OF conjunct2 [OF t], of 4] by (simp add: ptr_add_def)
  show ?thesis
    using h a b by simp
qed

text \<open>
  C6. For iterators \<open>a\<close>, \<open>b\<close> with the same base pointer, \<open>a < b\<close> holds iff the position
  of \<open>a\<close> is less than the position of \<open>b\<close>; for every \<open>n\<close> with \<open>a + n\<close> in range
  (\<open>0 \<le> pos + n \<le> size\<close>), \<open>(a + n) - a\<close> is \<open>n\<close>; and for every iterator \<open>it\<close> not at the
  begin boundary (\<open>0 < pos \<le> size\<close>), \<open>++(--it)\<close> is \<open>it\<close> again and compares equal to it.
\<close>

theorem iterator_order_and_arithmetic:
  "(iter_ptr a = iter_ptr b \<longrightarrow>
      iterator_less a b = Inr (iter_pos a < iter_pos b))
   \<and> (0 \<le> iter_pos a + n \<and> iter_pos a + n \<le> iter_size a \<longrightarrow>
      and_then (plus_n a n) (\<lambda>t. difference t a) = Inr n)
   \<and> (0 < iter_pos it \<and> iter_pos it \<le> iter_size it \<longrightarrow>
      and_then (pre_dec it) pre_inc = Inr it
      \<and> and_then (and_then (pre_dec it) pre_inc) (\<lambda>r. iterator_eq r it) = Inr True)"
  by (simp add: iterator_less_def plus_n_def add_assign_in_range difference_def pre_dec_def
      pre_inc_def iterator_eq_def)

theorem iterator_order_and_arithmetic_witness:
  "iterator_less \<lparr>iter_ptr = 100, iter_pos = 2, iter_size = 10\<rparr>
                 \<lparr>iter_ptr = 100, iter_pos = 5, iter_size = 10\<rparr> = Inr True
   \<and> iterator_less \<lparr>iter_ptr = 100, iter_pos = 5, iter_size = 10\<rparr>
                   \<lparr>iter_ptr = 100, iter_pos = 2, iter_size = 10\<rparr> = Inr False
   \<and> and_then (plus_n \<lparr>iter_ptr = 100, iter_pos = 2, iter_size = 10\<rparr> 3)
        (\<lambda>t. difference t \<lparr>iter_ptr = 100, iter_pos = 2, iter_size = 10\<rparr>) = Inr 3
   \<and> and_then (pre_dec \<lparr>iter_ptr = 100, iter_pos = 2, iter_size = 10\<rparr>) pre_inc
        = Inr \<lparr>iter_ptr = 100, iter_pos = 2, iter_size = 10\<rparr>
   \<and> and_then (and_then (pre_dec \<lparr>iter_ptr = 100, iter_pos = 2, iter_size = 10\<rparr>) pre_inc)
        (\<lambda>r. iterator_eq r \<lparr>iter_ptr = 100, iter_pos = 2, iter_size = 10\<rparr>) = Inr True"
  using iterator_order_and_arithmetic
      [of "\<lparr>iter_ptr = 100, iter_pos = 2, iter_size = 10\<rparr>"
          "\<lparr>iter_ptr = 100, iter_pos = 5, iter_size = 10\<rparr>" 3
          "\<lparr>iter_ptr = 100, iter_pos = 2, iter_size = 10\<rparr>"]
    iterator_order_and_arithmetic
      [of "\<lparr>iter_ptr = 100, iter_pos = 5, iter_size = 10\<rparr>"
          "\<lparr>iter_ptr = 100, iter_pos = 2, iter_size = 10\<rparr>" 0
          "\<lparr>iter_ptr = 100, iter_pos = 2, iter_size = 10\<rparr>"]
  by simp

section \<open>Equality of views\<close>

text \<open>
  C7. Two views compare equal iff they have the same data address and the same size; the
  comparison reads no element. So views of different sizes are unequal, views at
  different addresses are unequal whatever they hold, and a proper sub-range of a view
  (here its first \<open>n\<close> elements, \<open>n < size\<close>, by \<open>take_front\<close> or by \<open>drop_back\<close>), which
  starts at the same address and refers to the same elements, is unequal to the view.
\<close>

theorem view_equality_is_identity:
  "(array_ref_eq a b \<longleftrightarrow> ref_data a = ref_data b \<and> ref_size a = ref_size b)
   \<and> (array_ref_ne a b \<longleftrightarrow> \<not> array_ref_eq a b)
   \<and> (ref_size a \<noteq> ref_size b \<longrightarrow> \<not> array_ref_eq a b)
   \<and> (ref_data a \<noteq> ref_data b \<longrightarrow> \<not> array_ref_eq a b)
   \<and> (valid_view v \<and> 0 \<le> n \<and> n < ref_size v \<longrightarrow>
        (\<exists>w. take_front v n = Inr w \<and> ref_data w = ref_data v \<and> \<not> array_ref_eq w v)
      \<and> (\<exists>w. drop_back v (ref_size v - n) = Inr w \<and> ref_data w = ref_data v \<and> \<not> array_ref_eq w v))"
  by (auto simp: array_ref_eq_def array_ref_ne_def take_front_closed drop_back_closed)

theorem view_equality_is_identity_witness:
  "array_ref_eq \<lparr>ref_data = 100, ref_size = 10\<rparr> \<lparr>ref_data = 100, ref_size = 10\<rparr>
   \<and> \<not> array_ref_eq \<lparr>ref_data = 100, ref_size = 10\<rparr> \<lparr>ref_data = 100, ref_size = 4\<rparr>
   \<and> \<not> array_ref_eq \<lparr>ref_data = 100, ref_size = 10\<rparr> \<lparr>ref_data = 200, ref_size = 10\<rparr>
   \<and> valid_view \<lparr>ref_data = 100, ref_size = 10\<rparr> \<and> (4::int) < ref_size \<lparr>ref_data = 100, ref_size = 10\<rparr>
   \<and> (\<exists>w. take_front \<lparr>ref_data = 100, ref_size = 10\<rparr> 4 = Inr w \<and> ref_data w = ref_data \<lparr>ref_data = 100, ref_size = 10\<rparr> \<and> \<not> array_ref_eq w \<lparr>ref_data = 100, ref_size = 10\<rparr>)"
proof -
  let ?v = "\<lparr>ref_data = 100, ref_size = 10\<rparr>"
  have h: "valid_view ?v"
    by (simp add: valid_view_def)
  have a: "array_ref_eq ?v ?v"
    using view_equality_is_identity [of ?v ?v ?v 4] by simp
  have b: "\<not> array_ref_eq ?v \<lparr>ref_data = 100, ref_size = 4\<rparr>"
    using view_equality_is_identity [of ?v "\<lparr>ref_data = 100, ref_size = 4\<rparr>" ?v 4] by simp
  have c: "\<not> array_ref_eq ?v \<lparr>ref_data = 200, ref_size = 10\<rparr>"
    using view_equality_is_identity [of ?v "\<lparr>ref_data = 200, ref_size = 10\<rparr>" ?v 4] by simp
  have d: "\<exists>w. take_front ?v 4 = Inr w \<and> ref_data w = ref_data ?v \<and> \<not> array_ref_eq w ?v"
    using h view_equality_is_identity [of ?v ?v ?v 4] by simp
  show ?thesis
    using h a b c d by simp
qed

section \<open>What the iterator's constructor asserts\<close>

text \<open>
  C8, as stated, fails: a non-null pointer together with length 0 violates
  "the pointer is null iff the length is 0", and the constructor accepts it.
\<close>

theorem ctor_accepts_nonnull_empty:
  "\<not> spec_ctor_precondition 1 0 0
   \<and> iterator_ctor 1 0 0 = Inr \<lparr>iter_ptr = 1, iter_pos = 0, iter_size = 0\<rparr>"
  by (simp add: spec_ctor_precondition_def iterator_ctor_def)

text \<open>
  C8, amended. Constructing an iterator from (pointer, length, position) has the
  precondition: \<open>length \<ge> 0\<close>, a null pointer comes with \<open>length = 0\<close> only (a non-null
  pointer with \<open>length = 0\<close> is accepted), and \<open>position\<close> is in \<open>[0, length]\<close>. Under it the
  constructor returns the iterator with these fields; any violation fails an assertion:
  the one of line 62 for the pointer and the length, else the one of line 63 for a
  negative position, else the one of line 64 for a position beyond the length.
\<close>

theorem iterator_ctor_checks:
  "iterator_ctor p sz ps =
     (if 0 \<le> sz \<and> (p = nullptr \<longrightarrow> sz = 0) \<and> 0 \<le> ps \<and> ps \<le> sz
      then Inr \<lparr>iter_ptr = p, iter_pos = ps, iter_size = sz\<rparr>
      else Inl (AssertionFailure
             (if \<not> (0 \<le> sz \<and> (p = nullptr \<longrightarrow> sz = 0)) then 62
              else if ps < 0 then 63 else 64)))"
  by (auto simp: iterator_ctor_def)

theorem iterator_ctor_checks_witness:
  "iterator_ctor 1 0 0 = Inr \<lparr>iter_ptr = 1, iter_pos = 0, iter_size = 0\<rparr>
   \<and> iterator_ctor 100 10 4 = Inr \<lparr>iter_ptr = 100, iter_pos = 4, iter_size = 10\<rparr>
   \<and> iterator_ctor nullptr 5 0 = Inl (AssertionFailure 62)
   \<and> iterator_ctor 100 (- 1) 0 = Inl (AssertionFailure 62)
   \<and> iterator_ctor 100 10 (- 1) = Inl (AssertionFailure 63)
   \<and> iterator_ctor 100 10 11 = Inl (AssertionFailure 64)"
  using iterator_ctor_checks [of 1 0 0] iterator_ctor_checks [of 100 10 4]
    iterator_ctor_checks [of nullptr 5 0] iterator_ctor_checks [of 100 "- 1" 0]
    iterator_ctor_checks [of 100 10 "- 1"] iterator_ctor_checks [of 100 10 11]
  by simp

section \<open>Sub-ranges stay within the view\<close>

text \<open>
  C9. Every sub-range operation (\<open>take_front\<close>, \<open>take_back\<close>, \<open>drop_front\<close>, \<open>drop_back\<close>,
  \<open>subarray\<close> and \<open>slice\<close>, each in its one and two argument form), applied with
  non-negative arguments to a view with data \<open>d\<close> and size \<open>s\<close> that satisfies the
  constructor's assertion, returns a view with data \<open>d'\<close> and size \<open>s'\<close> such that
  \<open>d \<le> d' \<le> d + s\<close>, \<open>0 \<le> s'\<close> and \<open>d' + s' \<le> d + s\<close>; the returned view satisfies the
  constructor's assertion again.
\<close>

theorem sub_ranges_stay_within:
  assumes "valid_view v" "0 \<le> n" "0 \<le> first" "0 \<le> lst"
  shows "(\<exists>w. take_front v n = Inr w \<and> within v w \<and> valid_view w)
    \<and> (\<exists>w. take_back v n = Inr w \<and> within v w \<and> valid_view w)
    \<and> (\<exists>w. drop_front v n = Inr w \<and> within v w \<and> valid_view w)
    \<and> (\<exists>w. drop_back v n = Inr w \<and> within v w \<and> valid_view w)
    \<and> (\<exists>w. subarray v first lst = Inr w \<and> within v w \<and> valid_view w)
    \<and> (\<exists>w. subarray_from v first = Inr w \<and> within v w \<and> valid_view w)
    \<and> (\<exists>w. slice v first n = Inr w \<and> within v w \<and> valid_view w)
    \<and> (\<exists>w. slice_from v first = Inr w \<and> within v w \<and> valid_view w)"
proof (intro conjI)
  show "\<exists>w. take_front v n = Inr w \<and> within v w \<and> valid_view w"
    using assms by (auto simp: take_front_closed within_def valid_view_def)
  show "\<exists>w. take_back v n = Inr w \<and> within v w \<and> valid_view w"
    using assms by (auto simp: take_back_closed within_def valid_view_def ptr_add_def)
  show "\<exists>w. drop_front v n = Inr w \<and> within v w \<and> valid_view w"
    using assms by (auto simp: drop_front_closed within_def valid_view_def ptr_add_def)
  show "\<exists>w. drop_back v n = Inr w \<and> within v w \<and> valid_view w"
    using assms by (auto simp: drop_back_closed within_def valid_view_def)
  show "\<exists>w. subarray v first lst = Inr w \<and> within v w \<and> valid_view w"
    using assms by (auto simp: subarray_closed within_def valid_view_def ptr_add_def)
  show "\<exists>w. subarray_from v first = Inr w \<and> within v w \<and> valid_view w"
    using assms
    by (auto simp: subarray_from_def drop_front_closed within_def valid_view_def ptr_add_def)
  show "\<exists>w. slice v first n = Inr w \<and> within v w \<and> valid_view w"
    using assms by (auto simp: slice_closed within_def valid_view_def ptr_add_def)
  show "\<exists>w. slice_from v first = Inr w \<and> within v w \<and> valid_view w"
    using assms
    by (auto simp: slice_from_def drop_front_closed within_def valid_view_def ptr_add_def)
qed

theorem sub_ranges_stay_within_witness:
  "valid_view \<lparr>ref_data = 100, ref_size = 10\<rparr>
   \<and> (\<exists>w. take_front \<lparr>ref_data = 100, ref_size = 10\<rparr> 3 = Inr w \<and> within \<lparr>ref_data = 100, ref_size = 10\<rparr> w \<and> valid_view w)
   \<and> (\<exists>w. take_back \<lparr>ref_data = 100, ref_size = 10\<rparr> 3 = Inr w \<and> within \<lparr>ref_data = 100, ref_size = 10\<rparr> w \<and> valid_view w)
   \<and> (\<exists>w. drop_front \<lparr>ref_data = 100, ref_size = 10\<rparr> 3 = Inr w \<and> within \<lparr>ref_data = 100, ref_size = 10\<rparr> w \<and> valid_view w)
   \<and> (\<exists>w. drop_back \<lparr>ref_data = 100, ref_size = 10\<rparr> 3 = Inr w \<and> within \<lparr>ref_data = 100, ref_size = 10\<rparr> w \<and> valid_view w)
   \<and> (\<exists>w. subarray \<lparr>ref_data = 100, ref_size = 10\<rparr> 4 13 = Inr w \<and> within \<lparr>ref_data = 100, ref_size = 10\<rparr> w \<and> valid_view w)
   \<and> (\<exists>w. subarray_from \<lparr>ref_data = 100, ref_size = 10\<rparr> 4 = Inr w \<and> within \<lparr>ref_data = 100, ref_size = 10\<rparr> w \<and> valid_view w)
   \<and> (\<exists>w. slice \<lparr>ref_data = 100, ref_size = 10\<rparr> 4 3 = Inr w \<and> within \<lparr>ref_data = 100, ref_size = 10\<rparr> w \<and> valid_view w)
   \<and> (\<exists>w. slice_from \<lparr>ref_data = 100, ref_size = 10\<rparr> 4 = Inr w \<and> within \<lparr>ref_data = 100, ref_size = 10\<rparr> w \<and> valid_view w)"
proof -
  have h: "valid_view \<lparr>ref_data = 100, ref_size = 10\<rparr>"
    by (simp add: valid_view_def)
  have "(0::int) \<le> 3" "(0::int) \<le> 4" "(0::int) \<le> 13"
    by simp_all
  from sub_ranges_stay_within [OF h this] h show ?thesis
    by (intro conjI) simp_all
qed

section \<open>Negative counts\<close>

text \<open>
  C10. The clamping is one-sided. For every view that satisfies the constructor's
  assertion (the non-empty ones among them) and every count \<open>n < 0\<close> of
  \<^verbatim>\<open>std::ptrdiff_t\<close>, \<open>Min\<close> leaves \<open>n\<close> as it is, and \<open>take_front(n)\<close>, \<open>take_back(n)\<close>,
  \<open>drop_front(n)\<close> and \<open>drop_back(n)\<close> fail an assertion of the iterator arithmetic on the
  resulting position. The two front operations fail \<^verbatim>\<open>pos_ + n >= 0\<close> in \<^verbatim>\<open>operator+=\<close>
  (line 108). The two back operations compute \<open>size - n\<close> in \<^verbatim>\<open>operator-=\<close>: where it
  fits \<^verbatim>\<open>std::ptrdiff_t\<close> they fail \<^verbatim>\<open>pos_ - n <= size_\<close> (line 126); where it overflows,
  the wrapped difference is negative and they fail \<^verbatim>\<open>pos_ - n >= 0\<close> (line 125). For
  every \<open>n \<ge> 0\<close> all four return a view.
\<close>

theorem negative_count_reaches_assertion:
  assumes "valid_view v" "is_ptrdiff (ref_size v)" "is_ptrdiff n"
  shows "(n < 0 \<longrightarrow>
            Min2 n (ref_size v) = n
          \<and> take_front v n = Inl (AssertionFailure 108)
          \<and> take_back v n =
              Inl (AssertionFailure (if ref_size v - n \<le> PTRDIFF_MAX then 126 else 125))
          \<and> drop_front v n = Inl (AssertionFailure 108)
          \<and> drop_back v n =
              Inl (AssertionFailure (if ref_size v - n \<le> PTRDIFF_MAX then 126 else 125)))
       \<and> (0 \<le> n \<longrightarrow>
            (\<exists>w. take_front v n = Inr w) \<and> (\<exists>w. take_back v n = Inr w)
          \<and> (\<exists>w. drop_front v n = Inr w) \<and> (\<exists>w. drop_back v n = Inr w))"
proof (intro conjI impI)
  assume n: "n < 0"
  have sz: "0 \<le> ref_size v"
    using assms by (auto simp: valid_view_def)
  let ?b = "\<lparr>iter_ptr = ref_data v, iter_pos = 0, iter_size = ref_size v\<rparr>"
  let ?e = "\<lparr>iter_ptr = ref_data v, iter_pos = ref_size v, iter_size = ref_size v\<rparr>"
  have plus: "add_assign ?b n = Inl (AssertionFailure 108)"
    using n by (simp add: add_assign_negative)
  have minus: "sub_assign ?e n =
      Inl (AssertionFailure (if ref_size v - n \<le> PTRDIFF_MAX then 126 else 125))"
    using sub_assign_end_negative [of ?e n] n sz assms by simp
  show m: "Min2 n (ref_size v) = n"
    using n sz by (simp add: Min2_def)
  show "take_front v n = Inl (AssertionFailure 108)"
    using assms by (simp add: take_front_def m ref_begin_valid plus_n_def plus)
  show "take_back v n =
      Inl (AssertionFailure (if ref_size v - n \<le> PTRDIFF_MAX then 126 else 125))"
    using assms by (simp add: take_back_def m ref_end_valid minus_n_def minus)
  show "drop_front v n = Inl (AssertionFailure 108)"
    using assms by (simp add: drop_front_def m ref_begin_valid plus_n_def plus)
  show "drop_back v n =
      Inl (AssertionFailure (if ref_size v - n \<le> PTRDIFF_MAX then 126 else 125))"
    using assms by (simp add: drop_back_def m ref_begin_valid ref_end_valid minus_n_def minus)
next
  assume n: "0 \<le> n"
  show "\<exists>w. take_front v n = Inr w" using n assms by (simp add: take_front_closed)
  show "\<exists>w. take_back v n = Inr w" using n assms by (simp add: take_back_closed)
  show "\<exists>w. drop_front v n = Inr w" using n assms by (simp add: drop_front_closed)
  show "\<exists>w. drop_back v n = Inr w" using n assms by (simp add: drop_back_closed)
qed

theorem negative_count_reaches_assertion_witness:
  "valid_view \<lparr>ref_data = 100, ref_size = 10\<rparr> \<and> is_ptrdiff (ref_size \<lparr>ref_data = 100, ref_size = 10\<rparr>)
   \<and> is_ptrdiff (- 1) \<and> (- 1 :: int) < 0
   \<and> Min2 (- 1) (ref_size \<lparr>ref_data = 100, ref_size = 10\<rparr>) = - 1
   \<and> take_front \<lparr>ref_data = 100, ref_size = 10\<rparr> (- 1) = Inl (AssertionFailure 108)
   \<and> take_back \<lparr>ref_data = 100, ref_size = 10\<rparr> (- 1) = Inl (AssertionFailure 126)
   \<and> drop_front \<lparr>ref_data = 100, ref_size = 10\<rparr> (- 1) = Inl (AssertionFailure 108)
   \<and> drop_back \<lparr>ref_data = 100, ref_size = 10\<rparr> (- 1) = Inl (AssertionFailure 126)
   \<and> is_ptrdiff PTRDIFF_MIN \<and> PTRDIFF_MIN < 0
   \<and> Min2 PTRDIFF_MIN (ref_size \<lparr>ref_data = 100, ref_size = 10\<rparr>) = PTRDIFF_MIN
   \<and> take_front \<lparr>ref_data = 100, ref_size = 10\<rparr> PTRDIFF_MIN = Inl (AssertionFailure 108)
   \<and> take_back \<lparr>ref_data = 100, ref_size = 10\<rparr> PTRDIFF_MIN = Inl (AssertionFailure 125)
   \<and> drop_front \<lparr>ref_data = 100, ref_size = 10\<rparr> PTRDIFF_MIN = Inl (AssertionFailure 108)
   \<and> drop_back \<lparr>ref_data = 100, ref_size = 10\<rparr> PTRDIFF_MIN = Inl (AssertionFailure 125)
   \<and> is_ptrdiff 3
   \<and> (\<exists>w. take_front \<lparr>ref_data = 100, ref_size = 10\<rparr> 3 = Inr w) \<and> (\<exists>w. take_back \<lparr>ref_data = 100, ref_size = 10\<rparr> 3 = Inr w)
   \<and> (\<exists>w. drop_front \<lparr>ref_data = 100, ref_size = 10\<rparr> 3 = Inr w) \<and> (\<exists>w. drop_back \<lparr>ref_data = 100, ref_size = 10\<rparr> 3 = Inr w)"
proof -
  have h: "valid_view \<lparr>ref_data = 100, ref_size = 10\<rparr>" "is_ptrdiff (ref_size \<lparr>ref_data = 100, ref_size = 10\<rparr>)"
    by (simp_all add: valid_view_def is_ptrdiff_def PTRDIFF_MIN_def PTRDIFF_MAX_def)
  have r: "is_ptrdiff (- 1)" "is_ptrdiff PTRDIFF_MIN" "is_ptrdiff 3"
    by (simp_all add: is_ptrdiff_def PTRDIFF_MIN_def PTRDIFF_MAX_def)
  have a: "PTRDIFF_MIN < 0" "\<not> ref_size \<lparr>ref_data = 100, ref_size = 10\<rparr> - PTRDIFF_MIN \<le> PTRDIFF_MAX"
    by (simp_all add: PTRDIFF_MIN_def PTRDIFF_MAX_def)
  have b: "ref_size \<lparr>ref_data = 100, ref_size = 10\<rparr> - (- 1) \<le> PTRDIFF_MAX"
    by (simp add: PTRDIFF_MAX_def)
  show ?thesis
    using h r a b
      negative_count_reaches_assertion [OF h r(1)]
      negative_count_reaches_assertion [OF h r(2)]
      negative_count_reaches_assertion [OF h r(3)]
    by simp
qed

end
